theory Spec2Isabelle
  imports Complex_Main "HOL-Library.Multiset"
begin

section \<open>Time, numbers and text\<close>

text \<open>
  A naive \<^verbatim>\<open>datetime\<close> is the number of microseconds since 1970-01-01 00:00:00, and a
  \<^verbatim>\<open>timedelta\<close> is a number of microseconds. Python normalises a timedelta so that
  \<^verbatim>\<open>days\<close> is the floor of the quotient by one day and \<^verbatim>\<open>seconds\<close> lies in
  \<open>[0, 86400)\<close>, also for a negative difference; \<open>div\<close> and \<open>mod\<close> on \<open>int\<close> round
  the same way. Python numbers (int, float, Decimal) are \<open>real\<close>, and arithmetic is
  exact, except in the performance history, whose sums depend on the order of the rows: there
  the addition of the profit numbers is a parameter.
\<close>

type_synonym datetime = int
type_synonym timedelta = int

definition us_per_second :: int where
  "us_per_second = 1000000"

definition us_per_day :: int where
  "us_per_day = 86400 * us_per_second"

definition timedelta_of_days :: "int \<Rightarrow> timedelta" where
  "timedelta_of_days d = d * us_per_day"

definition td_days :: "timedelta \<Rightarrow> int" where
  "td_days d = d div us_per_day"

definition td_seconds :: "timedelta \<Rightarrow> int" where
  "td_seconds d = (d mod us_per_day) div us_per_second"

text \<open>The decimal text of an integer, as \<^verbatim>\<open>str\<close> and an f-string field give it.\<close>

definition digit_char :: "nat \<Rightarrow> char" where
  "digit_char n = ''0123456789'' ! (n mod 10)"

function str_nat :: "nat \<Rightarrow> string" where
  "str_nat n = (if n < 10 then [digit_char n] else str_nat (n div 10) @ [digit_char (n mod 10)])"
  by pat_completeness auto
termination
  by (relation "measure id") auto

declare str_nat.simps [simp del]

definition str_int :: "int \<Rightarrow> string" where
  "str_int i = (if i < 0 then CHR ''-'' # str_nat (nat (- i)) else str_nat (nat i))"

section \<open>Records of the store\<close>

text \<open>
  Modelled from the spec: the classes \<^verbatim>\<open>Bet\<close>, \<^verbatim>\<open>Subscription\<close> and \<^verbatim>\<open>User\<close> that
  \<^verbatim>\<open>dashboard_service.py\<close> imports (\<^verbatim>\<open>models.bet\<close>, \<^verbatim>\<open>models.subscription\<close>,
  \<^verbatim>\<open>models.user_model\<close>) are not among the sources. Their fields are the ones the service
  reads. An attribute that \<^verbatim>\<open>hasattr\<close> probes is an \<open>option\<close>: \<open>None\<close> is an object
  without the attribute.
\<close>

record bet =
  bet_user_id :: int
  bet_created_at :: datetime
  bet_status :: string
  bet_amount :: real
  bet_profit :: "real option"
  bet_event_name :: "string option"

record subscription =
  sub_user_id :: int
  sub_created_at :: datetime
  sub_plan_name :: string

record user =
  user_followers :: "int list option"
  user_followers_count :: "int option"

record store =
  bets :: "bet list"
  subscriptions :: "subscription list"
  users :: "int \<Rightarrow> user option"

section \<open>Metric primitives\<close>

definition calculate_percentage_change :: "real \<Rightarrow> real \<Rightarrow> real" where
  "calculate_percentage_change current_value previous_value =
     (if previous_value = 0 then 0
      else ((current_value - previous_value) / \<bar>previous_value\<bar>) * 100)"

definition calculate_win_rate :: "bet list \<Rightarrow> real" where
  "calculate_win_rate bs =
     (if bs = [] then 0
      else (let winning_bets = filter (\<lambda>b. bet_status b = ''win'') bs
            in (real (length winning_bets) / real (length bs)) * 100))"

text \<open>
  \<^verbatim>\<open>Bet.query.filter(user_id, created_at >= start_date, status != 'pending')\<close>, with
  \<^verbatim>\<open>created_at < end_date\<close> added when an end date is given (a datetime is always truthy).
\<close>

definition period_bets :: "store \<Rightarrow> int \<Rightarrow> datetime \<Rightarrow> datetime option \<Rightarrow> bet list" where
  "period_bets db uid start_date end_date =
     (let query = filter (\<lambda>b. bet_user_id b = uid \<and> start_date \<le> bet_created_at b
                               \<and> bet_status b \<noteq> ''pending'') (bets db)
      in case end_date of
           None \<Rightarrow> query
         | Some e \<Rightarrow> filter (\<lambda>b. bet_created_at b < e) query)"

definition calculate_period_win_rate :: "store \<Rightarrow> int \<Rightarrow> datetime \<Rightarrow> datetime option \<Rightarrow> real" where
  "calculate_period_win_rate db uid start_date end_date =
     calculate_win_rate (period_bets db uid start_date end_date)"

text \<open>\<^verbatim>\<open>sum(bet.profit for bet in bets if hasattr(bet, 'profit'))\<close>\<close>

fun sum_profit :: "bet list \<Rightarrow> real" where
  "sum_profit [] = 0"
| "sum_profit (b # bs) =
     (case bet_profit b of None \<Rightarrow> sum_profit bs | Some p \<Rightarrow> p + sum_profit bs)"

definition calculate_period_profit :: "store \<Rightarrow> int \<Rightarrow> datetime \<Rightarrow> datetime option \<Rightarrow> real" where
  "calculate_period_profit db uid start_date end_date =
     sum_profit (period_bets db uid start_date end_date)"

definition calculate_trend_metric ::
  "datetime \<Rightarrow> int \<Rightarrow> (int \<Rightarrow> datetime \<Rightarrow> datetime option \<Rightarrow> real) \<Rightarrow> int \<Rightarrow> int \<Rightarrow> real" where
  "calculate_trend_metric now uid metric_func current_period_days previous_period_days =
     (let current_period_start = now - timedelta_of_days current_period_days;
          previous_period_start = now - timedelta_of_days previous_period_days;
          current_metric = metric_func uid current_period_start None;
          previous_metric = metric_func uid previous_period_start (Some current_period_start)
      in calculate_percentage_change current_metric previous_metric)"

section \<open>Relative time labels\<close>

definition format_relative_time :: "datetime \<Rightarrow> datetime \<Rightarrow> string" where
  "format_relative_time now timestamp =
     (let time_diff = now - timestamp in
      if td_days time_diff > 0 then str_int (td_days time_diff) @ ''d ago''
      else if td_seconds time_diff \<ge> 3600 then str_int (td_seconds time_diff div 3600) @ ''h ago''
      else if td_seconds time_diff \<ge> 60 then str_int (td_seconds time_diff div 60) @ ''m ago''
      else ''just now'')"

section \<open>User metrics\<close>

text \<open>
  \<^verbatim>\<open>round(x, n)\<close> on exact numbers: to the nearest multiple of \<open>10^-n\<close>, a tie going to
  the even one.
\<close>

definition round_half_even :: "real \<Rightarrow> int" where
  "round_half_even x =
     (let f = \<lfloor>x\<rfloor>; r = x - of_int f in
      if r < 1 / 2 then f
      else if r > 1 / 2 then f + 1
      else if even f then f else f + 1)"

definition py_round :: "real \<Rightarrow> nat \<Rightarrow> real" where
  "py_round x n = of_int (round_half_even (x * 10 ^ n)) / 10 ^ n"

record metrics =
  winRate :: real
  winRateTrend :: real
  totalProfit :: real
  profitTrend :: real
  clutchPicks :: int
  clutchPicksTrend :: real
  followers :: int
  followersTrend :: real

definition get_followers_count :: "store \<Rightarrow> int \<Rightarrow> int" where
  "get_followers_count db uid =
     (case users db uid of
        None \<Rightarrow> 0
      | Some u \<Rightarrow>
          (case user_followers u of
             Some fs \<Rightarrow> int (length fs)
           | None \<Rightarrow> (case user_followers_count u of Some c \<Rightarrow> c | None \<Rightarrow> 0)))"

definition calculate_followers_trend :: "int \<Rightarrow> real" where
  "calculate_followers_trend uid = 0"

text \<open>
  \<^verbatim>\<open>BetService.get_clutch_picks_count(user_id, start_date, end_date)\<close> is not among the
  sources: it is the parameter \<open>get_clutch_picks_count\<close>. \<^verbatim>\<open>datetime.now()\<close> is the
  parameter \<open>now\<close>, one instant for the whole call.
\<close>

definition get_user_metrics ::
  "(int \<Rightarrow> datetime option \<Rightarrow> datetime option \<Rightarrow> int) \<Rightarrow> datetime \<Rightarrow> store \<Rightarrow> int \<Rightarrow> metrics option" where
  "get_user_metrics get_clutch_picks_count now db uid =
     (case users db uid of
        None \<Rightarrow> None
      | Some u \<Rightarrow>
          (let all_bets = filter (\<lambda>b. bet_user_id b = uid) (bets db);
               settled_bets = filter (\<lambda>b. bet_status b \<noteq> ''pending'') all_bets;
               win_rate = calculate_win_rate settled_bets;
               win_rate_trend =
                 calculate_trend_metric now uid (calculate_period_win_rate db) 30 60;
               total_profit = sum_profit settled_bets;
               profit_trend =
                 calculate_trend_metric now uid (calculate_period_profit db) 30 60;
               clutch_picks = get_clutch_picks_count uid None None;
               one_month_ago = now - timedelta_of_days 30;
               two_months_ago = now - timedelta_of_days 60;
               current_clutch_picks = get_clutch_picks_count uid (Some one_month_ago) None;
               previous_clutch_picks =
                 get_clutch_picks_count uid (Some two_months_ago) (Some one_month_ago);
               clutch_picks_trend =
                 calculate_percentage_change (of_int current_clutch_picks)
                   (of_int previous_clutch_picks);
               followers_count = get_followers_count db uid;
               followers_trend = calculate_followers_trend uid
           in Some \<lparr>winRate = py_round win_rate 1,
                     winRateTrend = py_round win_rate_trend 1,
                     totalProfit = py_round total_profit 2,
                     profitTrend = py_round profit_trend 1,
                     clutchPicks = clutch_picks,
                     clutchPicksTrend = py_round clutch_picks_trend 1,
                     followers = followers_count,
                     followersTrend = py_round followers_trend 1\<rparr>))"

section \<open>Performance history\<close>

text \<open>
  \<^verbatim>\<open>strftime('%b %d')\<close> in the C locale: the abbreviated month name and the day of the
  month on two digits. The civil date of a day number (days since 1970-01-01) is computed
  over the 400-year cycle of the Gregorian calendar, with the year starting in March.
\<close>

definition civil_from_days :: "int \<Rightarrow> int \<times> int \<times> int" where
  "civil_from_days z =
     (let z' = z + 719468;
          era = z' div 146097;
          doe = z' mod 146097;
          yoe = (doe - doe div 1460 + doe div 36524 - doe div 146096) div 365;
          doy = doe - (365 * yoe + yoe div 4 - yoe div 100);
          mp = (5 * doy + 2) div 153;
          d = doy - (153 * mp + 2) div 5 + 1;
          m = (if mp < 10 then mp + 3 else mp - 9);
          y = yoe + era * 400
      in (if m \<le> 2 then y + 1 else y, m, d))"

definition month_abbr :: "int \<Rightarrow> string" where
  "month_abbr m =
     [''Jan'', ''Feb'', ''Mar'', ''Apr'', ''May'', ''Jun'',
      ''Jul'', ''Aug'', ''Sep'', ''Oct'', ''Nov'', ''Dec''] ! nat ((m - 1) mod 12)"

definition strftime_b_d :: "datetime \<Rightarrow> string" where
  "strftime_b_d t =
     (case civil_from_days (t div us_per_day) of
        (y, m, d) \<Rightarrow> month_abbr m @ '' '' @ (if d < 10 then ''0'' else []) @ str_int d)"

text \<open>
  Addition of IEEE 754 binary64 numbers (Python and numpy floats), for finite values in the
  normal range: the exact sum, rounded to the nearest number with a significand of 53 bits, a
  tie going to the even significand. \<open>ulp_of n x u\<close> scales \<open>x\<close> into \<open>[1, 2)\<close> in at most
  \<open>n\<close> steps and scales the unit \<open>u\<close> the other way.
\<close>

fun ulp_of :: "nat \<Rightarrow> real \<Rightarrow> real \<Rightarrow> real" where
  "ulp_of 0 x u = u"
| "ulp_of (Suc n) x u =
     (if 2 \<le> x then ulp_of n (x / 2) (u * 2)
      else if x < 1 then ulp_of n (x * 2) (u / 2)
      else u)"

definition round_double :: "real \<Rightarrow> real" where
  "round_double x =
     (if x = 0 then 0
      else (let u = ulp_of 2100 \<bar>x\<bar> (1 / 2 ^ 52)
            in of_int (round_half_even (x / u)) * u))"

definition double_add :: "real \<Rightarrow> real \<Rightarrow> real" where
  "double_add a b = round_double (a + b)"

text \<open>
  The pandas calls, on rows \<open>(date, profit)\<close>. \<open>add\<close> is the addition of the number type of
  the profit column, whose declaration is not among the sources: \<open>double_add\<close> for a float
  column, exact addition for a decimal one. \<^verbatim>\<open>df.resample(freq).sum()\<close> with a frequency
  of whole days: the rows are ordered by date (a stable sort, so that rows of equal date keep
  their order), the first bin starts at midnight of the earliest date, the bins are
  contiguous, closed on the left and labelled by their left edge, the last bin is the one
  holding the latest date, and each bin holds the sum of its rows, added one after the other
  in row order starting from 0, so 0 for a bin without rows. \<^verbatim>\<open>cumsum()\<close> keeps the first
  value and replaces each later one by the running total.
\<close>

definition normalize :: "datetime \<Rightarrow> datetime" where
  "normalize t = t - t mod us_per_day"

definition resample_sum ::
  "(real \<Rightarrow> real \<Rightarrow> real) \<Rightarrow> timedelta \<Rightarrow> (datetime \<times> real) list \<Rightarrow> (datetime \<times> real) list" where
  "resample_sum add freq rows =
     (case sort_key fst rows of
        [] \<Rightarrow> []
      | r # rs \<Rightarrow>
          (let sorted = r # rs;
               origin = normalize (fst r);
               nbins = nat ((fst (last sorted) - origin) div freq) + 1
           in map (\<lambda>k. let lo = origin + int k * freq; hi = lo + freq
                        in (lo, foldl add 0
                                  (map snd (filter (\<lambda>x. lo \<le> fst x \<and> fst x < hi) sorted))))
                  [0..<nbins]))"

fun cumsum_from ::
  "(real \<Rightarrow> real \<Rightarrow> real) \<Rightarrow> real \<Rightarrow> (datetime \<times> real) list \<Rightarrow> (datetime \<times> real) list" where
  "cumsum_from add acc [] = []"
| "cumsum_from add acc ((d, p) # rs) = (d, add acc p) # cumsum_from add (add acc p) rs"

fun cumsum :: "(real \<Rightarrow> real \<Rightarrow> real) \<Rightarrow> (datetime \<times> real) list \<Rightarrow> (datetime \<times> real) list" where
  "cumsum add [] = []"
| "cumsum add ((d, p) # rs) = (d, p) # cumsum_from add p rs"

record performance_point =
  pp_date :: string
  pp_profit :: real


definition sampling_freq :: "int \<Rightarrow> timedelta" where
  "sampling_freq days =
     (if days \<le> 30 then timedelta_of_days 1
      else if days \<le> 90 then timedelta_of_days 7
      else timedelta_of_days 15)"

text \<open>The part of \<^verbatim>\<open>get_performance_history\<close> that follows the collection of \<^verbatim>\<open>bet_data\<close>.\<close>

definition resample_history ::
  "(real \<Rightarrow> real \<Rightarrow> real) \<Rightarrow> int \<Rightarrow> (datetime \<times> real) list \<Rightarrow> performance_point list" where
  "resample_history add days bet_data =
     (if bet_data = [] then []
      else (let freq = sampling_freq days;
                resampled = cumsum add (resample_sum add freq bet_data)
            in map (\<lambda>row. \<lparr>pp_date = strftime_b_d (fst row),
                             pp_profit = py_round (snd row) 2\<rparr>) resampled))"


section \<open>Recent activity\<close>

text \<open>
  An activity is a Python dict: an association list from keys to values, in insertion
  order. \<open>fmt\<close> is the text that an f-string gives a value of the numeric column type of
  \<^verbatim>\<open>Bet.amount\<close> and \<^verbatim>\<open>Bet.profit\<close>, whose declaration is not among the sources.
  \<open>limit\<close> is a natural number.
\<close>

datatype pyval = StrV string | DateV datetime

type_synonym activity = "(string \<times> pyval) list"

definition bet_activity :: "(real \<Rightarrow> string) \<Rightarrow> datetime \<Rightarrow> bet \<Rightarrow> activity" where
  "bet_activity fmt now b =
     (let win_or_loss = (bet_status b = ''win'' \<or> bet_status b = ''loss'');
          activity_type = (if win_or_loss then bet_status b else ''bet'');
          verb = (if bet_status b = ''win'' then ''Won''
                  else if bet_status b = ''loss'' then ''Lost'' else ''Placed'');
          description =
            (case bet_event_name b of
               Some n \<Rightarrow>
                 (if n \<noteq> [] then verb @ '' $'' @ fmt \<bar>bet_amount b\<bar> @ '' on '' @ n
                  else verb @ '' $'' @ fmt \<bar>bet_amount b\<bar> @ '' bet'')
             | None \<Rightarrow> verb @ '' $'' @ fmt \<bar>bet_amount b\<bar> @ '' bet'');
          description' =
            (if win_or_loss then
               (case bet_profit b of
                  Some p \<Rightarrow> description @ '' ($'' @ fmt \<bar>p\<bar> @ '')''
                | None \<Rightarrow> description)
             else description)
      in [(''type'', StrV activity_type),
          (''description'', StrV description'),
          (''time'', StrV (format_relative_time now (bet_created_at b))),
          (''date'', DateV (bet_created_at b))])"

definition subscription_activity :: "datetime \<Rightarrow> subscription \<Rightarrow> activity" where
  "subscription_activity now sub =
     [(''type'', StrV ''purchase''),
      (''description'', StrV (''Purchased '' @ sub_plan_name sub @ '' Plan'')),
      (''time'', StrV (format_relative_time now (sub_created_at sub))),
      (''date'', DateV (sub_created_at sub))]"

text \<open>
  \<^verbatim>\<open>x["date"]\<close>, the key of the sort. Every activity built above has the key; the value 0
  stands for the lookup that cannot fail.
\<close>

definition activity_date :: "activity \<Rightarrow> datetime" where
  "activity_date a = (case map_of a ''date'' of Some (DateV d) \<Rightarrow> d | _ \<Rightarrow> 0)"

text \<open>\<^verbatim>\<open>del activity["date"]\<close>\<close>

definition del_key :: "string \<Rightarrow> activity \<Rightarrow> activity" where
  "del_key k a = filter (\<lambda>kv. fst kv \<noteq> k) a"

text \<open>
  \<^verbatim>\<open>list.sort(key=..., reverse=True)\<close>: descending, and equal keys keep their order (the
  list is reversed, sorted stably and reversed again). \<^verbatim>\<open>order_by(created_at.desc())\<close> is a
  descending sort of the table's rows.
\<close>

definition sort_reverse :: "('a \<Rightarrow> int) \<Rightarrow> 'a list \<Rightarrow> 'a list" where
  "sort_reverse f xs = rev (sort_key f (rev xs))"

definition recent_bets :: "store \<Rightarrow> int \<Rightarrow> nat \<Rightarrow> bet list" where
  "recent_bets db uid limit =
     take limit (sort_reverse bet_created_at (filter (\<lambda>b. bet_user_id b = uid) (bets db)))"

definition recent_subscriptions :: "store \<Rightarrow> int \<Rightarrow> subscription list" where
  "recent_subscriptions db uid =
     take 3 (sort_reverse sub_created_at (filter (\<lambda>s. sub_user_id s = uid) (subscriptions db)))"

text \<open>The list \<^verbatim>\<open>activities\<close> after both loops, before the sort.\<close>

definition collect_activities :: "(real \<Rightarrow> string) \<Rightarrow> datetime \<Rightarrow> store \<Rightarrow> int \<Rightarrow> nat \<Rightarrow> activity list" where
  "collect_activities fmt now db uid limit =
     map (bet_activity fmt now) (recent_bets db uid limit)
     @ map (subscription_activity now) (recent_subscriptions db uid)"

definition get_recent_activity :: "(real \<Rightarrow> string) \<Rightarrow> datetime \<Rightarrow> store \<Rightarrow> int \<Rightarrow> nat \<Rightarrow> activity list" where
  "get_recent_activity fmt now db uid limit =
     (let activities = sort_reverse activity_date (collect_activities fmt now db uid limit);
          activities' = map (del_key ''date'') activities
      in take limit activities')"

section \<open>Purchase of a pick\<close>

text \<open>
  The classes \<^verbatim>\<open>Pick\<close>, \<^verbatim>\<open>User\<close> and \<^verbatim>\<open>Subscription\<close> that \<^verbatim>\<open>marketplace_service.py\<close>
  imports are not among the sources; their fields are the ones \<^verbatim>\<open>purchase_pick\<close> touches.
  The session holds the committed rows and the rows as the current transaction sees them:
  \<^verbatim>\<open>commit\<close> makes the latter the former, \<^verbatim>\<open>rollback\<close> the former the latter.
\<close>

record pick =
  pick_sales :: int
  pick_required_tier :: int

record buyer =
  purchased_picks :: "int list"

record tier_subscription =
  tsub_user_id :: int
  tsub_active :: bool
  tsub_tier :: int

record market =
  buyers :: "int \<Rightarrow> buyer option"
  picks :: "int \<Rightarrow> pick option"
  tier_subscriptions :: "tier_subscription list"

record session =
  committed :: market
  working :: market

definition commit :: "session \<Rightarrow> session" where
  "commit s = s\<lparr>committed := working s\<rparr>"

definition rollback :: "session \<Rightarrow> session" where
  "rollback s = s\<lparr>working := committed s\<rparr>"

text \<open>
  The calls of the \<^verbatim>\<open>try\<close> block that can raise. \<open>raises\<close> tells which of them raise an
  \<^verbatim>\<open>Exception\<close> in the invocation at hand; the handler's own \<^verbatim>\<open>rollback\<close> and
  \<^verbatim>\<open>print\<close> do not raise.
\<close>

datatype step =
  GetUser | GetPick | QuerySubscription | CompareTier | AppendPick | IncrementSales
  | Commit | ToDict

record purchase_result =
  success :: bool
  message :: string
  pick_dict :: "pick option"

text \<open>
  The body of the \<^verbatim>\<open>try\<close> block: \<open>Inl\<close> is a raised exception, with the session as the
  raise leaves it; \<open>Inr\<close> is the returned dict.
\<close>

definition purchase_pick_body ::
  "(step \<Rightarrow> bool) \<Rightarrow> session \<Rightarrow> int \<Rightarrow> int \<Rightarrow> (step + purchase_result) \<times> session" where
  "purchase_pick_body raises s uid pid =
     (if raises GetUser then (Inl GetUser, s)
      else if raises GetPick then (Inl GetPick, s)
      else case (buyers (working s) uid, picks (working s) pid) of
          (Some u, Some p) \<Rightarrow>
            (if raises QuerySubscription then (Inl QuerySubscription, s)
             else
               (let subscription =
                      find (\<lambda>t. tsub_user_id t = uid \<and> tsub_active t)
                        (tier_subscriptions (working s))
                in if subscription \<noteq> None \<and> raises CompareTier then (Inl CompareTier, s)
                   else if raises AppendPick then (Inl AppendPick, s)
                   else
                     (let u' = u\<lparr>purchased_picks := purchased_picks u @ [pid]\<rparr>;
                          s1 = s\<lparr>working := (working s)\<lparr>buyers := (buyers (working s))(uid \<mapsto> u')\<rparr>\<rparr>
                      in if raises IncrementSales then (Inl IncrementSales, s1)
                         else
                           (let p' = p\<lparr>pick_sales := pick_sales p + 1\<rparr>;
                                s2 = s1\<lparr>working := (working s1)\<lparr>picks := (picks (working s1))(pid \<mapsto> p')\<rparr>\<rparr>
                            in if raises Commit then (Inl Commit, s2)
                               else
                                 (let s3 = commit s2
                                  in if raises ToDict then (Inl ToDict, s3)
                                     else (Inr \<lparr>success = True,
                                                message = ''Pick purchased successfully'',
                                                pick_dict = Some p'\<rparr>, s3))))))
        | _ \<Rightarrow> (Inr \<lparr>success = False, message = ''User or pick not found'',
                      pick_dict = None\<rparr>, s))"

definition purchase_pick ::
  "(step \<Rightarrow> bool) \<Rightarrow> session \<Rightarrow> int \<Rightarrow> int \<Rightarrow> purchase_result \<times> session" where
  "purchase_pick raises s uid pid =
     (case purchase_pick_body raises s uid pid of
        (Inr result, s') \<Rightarrow> (result, s')
      | (Inl e, s') \<Rightarrow>
          (\<lparr>success = False, message = ''Error processing purchase'', pick_dict = None\<rparr>,
           rollback s'))"

section \<open>Example data\<close>

text \<open>
  The evaluation time of the examples is 1970-04-11 12:00:00, day 100 of the epoch.
\<close>

definition example_now :: datetime where
  "example_now = 8683200000000"

definition example_fmt :: "real \<Rightarrow> string" where
  "example_fmt x = str_int \<lfloor>x\<rfloor>"

definition example_win_bet :: bet where
  "example_win_bet =
     \<lparr>bet_user_id = 1, bet_created_at = 7776000000000, bet_status = ''win'',
      bet_amount = 20, bet_profit = Some 50, bet_event_name = None\<rparr>"

definition example_loss_bet :: bet where
  "example_loss_bet =
     \<lparr>bet_user_id = 1, bet_created_at = 8208000000000, bet_status = ''loss'',
      bet_amount = 10, bet_profit = Some (- 10), bet_event_name = None\<rparr>"

definition example_no_profit_bet :: bet where
  "example_no_profit_bet =
     \<lparr>bet_user_id = 1, bet_created_at = 8380800000000, bet_status = ''loss'',
      bet_amount = 10, bet_profit = None, bet_event_name = None\<rparr>"

text \<open>
  Owner 1 has two settled bets of profit 50 in the last 30 days (days 90 and 95), one of
  profit 50 between 60 and 30 days ago (day 55) and a pending bet; there is no owner 2.
\<close>

definition example_metrics_db :: store where
  "example_metrics_db =
     \<lparr>bets = [\<lparr>bet_user_id = 1, bet_created_at = 7776000000000, bet_status = ''win'',
                bet_amount = 20, bet_profit = Some 50, bet_event_name = None\<rparr>,
              \<lparr>bet_user_id = 1, bet_created_at = 8208000000000, bet_status = ''win'',
                bet_amount = 10, bet_profit = Some 50, bet_event_name = None\<rparr>,
              \<lparr>bet_user_id = 1, bet_created_at = 4752000000000, bet_status = ''win'',
                bet_amount = 30, bet_profit = Some 50, bet_event_name = None\<rparr>,
              \<lparr>bet_user_id = 1, bet_created_at = 8553600000000, bet_status = ''pending'',
                bet_amount = 5, bet_profit = None, bet_event_name = None\<rparr>],
      subscriptions = [],
      users = [1 \<mapsto> \<lparr>user_followers = None, user_followers_count = Some 4\<rparr>]\<rparr>"

text \<open>A bet won at 10:00 and a plan purchased at 09:00 of the day of \<open>example_now\<close>.\<close>

definition example_feed_db :: store where
  "example_feed_db =
     \<lparr>bets = [\<lparr>bet_user_id = 1, bet_created_at = 8676000000000, bet_status = ''win'',
                bet_amount = 20, bet_profit = Some 50, bet_event_name = Some ''Final''\<rparr>],
      subscriptions = [\<lparr>sub_user_id = 1, sub_created_at = 8672400000000,
                         sub_plan_name = ''Gold''\<rparr>],
      users = [1 \<mapsto> \<lparr>user_followers = None, user_followers_count = Some 4\<rparr>]\<rparr>"

text \<open>Two rows, out of order: 1970-04-09 22:00 with profit 5, 1970-04-07 10:00 with profit 10.\<close>

definition example_rows :: "(datetime \<times> real) list" where
  "example_rows = [(8546400000000, 5), (8330400000000, 10)]"



definition example_session :: session where
  "example_session =
     \<lparr>committed = \<lparr>buyers = [1 \<mapsto> \<lparr>purchased_picks = []\<rparr>],
                    picks = [7 \<mapsto> \<lparr>pick_sales = 3, pick_required_tier = 0\<rparr>],
                    tier_subscriptions = []\<rparr>,
      working = \<lparr>buyers = [1 \<mapsto> \<lparr>purchased_picks = []\<rparr>],
                  picks = [7 \<mapsto> \<lparr>pick_sales = 3, pick_required_tier = 0\<rparr>],
                  tier_subscriptions = []\<rparr>\<rparr>"

section \<open>Properties of the metric primitives\<close>

text \<open>
  C1. The percentage change is 0 whenever the previous value is 0, whatever the current
  value, and is \<open>100 * (current - previous) / |previous|\<close> otherwise.
\<close>

theorem percentage_change_spec:
  "calculate_percentage_change current 0 = 0 \<and>
   (previous \<noteq> 0 \<longrightarrow>
      calculate_percentage_change current previous = 100 * (current - previous) / \<bar>previous\<bar>)"
  by (simp add: calculate_percentage_change_def)

theorem percentage_change_spec_witness:
  "calculate_percentage_change 7 0 = 0 \<and> (-4::real) \<noteq> 0 \<and>
   calculate_percentage_change 6 (-4) = 250"
  using percentage_change_spec [of 7 "-4"] percentage_change_spec [of 6 "-4"]
  by simp

text \<open>
  C7. The win rate of an empty sequence of bets is 0; of any other sequence it is 100 times
  the number of bets with status \<open>win\<close> over the number of bets, and it always lies between
  0 and 100.
\<close>

theorem win_rate_spec:
  "calculate_win_rate [] = 0 \<and>
   (B \<noteq> [] \<longrightarrow>
      calculate_win_rate B
        = 100 * real (length (filter (\<lambda>b. bet_status b = ''win'') B)) / real (length B))
   \<and> 0 \<le> calculate_win_rate B \<and> calculate_win_rate B \<le> 100"
proof -
  let ?w = "real (length (filter (\<lambda>b. bet_status b = ''win'') B))"
  have le: "?w \<le> real (length B)"
    by simp
  have "B \<noteq> [] \<Longrightarrow> ?w * 100 / real (length B) \<le> 100"
  proof -
    assume "B \<noteq> []"
    then have pos: "0 < real (length B)" by simp
    have "?w * 100 \<le> 100 * real (length B)" using le by simp
    then show ?thesis using pos by (simp add: pos_divide_le_eq)
  qed
  then show ?thesis
    by (auto simp: calculate_win_rate_def Let_def)
qed

theorem win_rate_spec_witness:
  "[\<lparr>bet_user_id = 1, bet_created_at = 0, bet_status = ''win'', bet_amount = 10,
      bet_profit = Some 20, bet_event_name = None\<rparr>,
    \<lparr>bet_user_id = 1, bet_created_at = 5, bet_status = ''loss'', bet_amount = 10,
      bet_profit = Some (- 10), bet_event_name = None\<rparr>] \<noteq> []
   \<and> calculate_win_rate
        [\<lparr>bet_user_id = 1, bet_created_at = 0, bet_status = ''win'', bet_amount = 10,
           bet_profit = Some 20, bet_event_name = None\<rparr>,
         \<lparr>bet_user_id = 1, bet_created_at = 5, bet_status = ''loss'', bet_amount = 10,
           bet_profit = Some (- 10), bet_event_name = None\<rparr>] = 50"
  using win_rate_spec
    [of "[\<lparr>bet_user_id = 1, bet_created_at = 0, bet_status = ''win'', bet_amount = 10,
            bet_profit = Some 20, bet_event_name = None\<rparr>,
          \<lparr>bet_user_id = 1, bet_created_at = 5, bet_status = ''loss'', bet_amount = 10,
            bet_profit = Some (- 10), bet_event_name = None\<rparr>]"]
  by simp

section \<open>Properties of the relative time label\<close>

lemma le_div_iff_int:
  fixes k e c :: int
  assumes "0 < c"
  shows "(k \<le> e div c) = (k * c \<le> e)"
proof
  assume "k \<le> e div c"
  then have "k * c \<le> (e div c) * c" using assms by (simp add: mult_right_mono)
  also have "\<dots> \<le> e" using assms
    by (metis mult.commute pos_mod_sign add_increasing2 mult_div_mod_eq order_refl)
  finally show "k * c \<le> e" .
next
  assume "k * c \<le> e"
  then have "(k * c) div c \<le> e div c" using assms by (rule zdiv_mono1)
  then show "k \<le> e div c" using assms by simp
qed

lemma elapsed_days: "0 \<le> e \<Longrightarrow> (0 < td_days e) = (us_per_day \<le> e)"
  unfolding td_days_def us_per_day_def us_per_second_def
  by (simp add: pos_imp_zdiv_pos_iff)

lemma elapsed_seconds: "0 \<le> e \<Longrightarrow> e < us_per_day \<Longrightarrow> td_seconds e = e div us_per_second"
  unfolding td_seconds_def by simp

lemma str_nat_small: "n < 10 \<Longrightarrow> str_nat n = [digit_char n]"
  by (simp add: str_nat.simps)

text \<open>
  C8. For a timestamp not later than the evaluation time, with \<open>e\<close> the elapsed time: the
  label is the number of whole days followed by \<open>d ago\<close> when \<open>e\<close> is at least a day, else the
  number of whole hours followed by \<open>h ago\<close> when \<open>e\<close> is at least an hour, else the number
  of whole minutes followed by \<open>m ago\<close> when \<open>e\<close> is at least a minute, else \<open>just now\<close>.
\<close>

theorem format_relative_time_spec:
  assumes "timestamp \<le> now"
  shows "format_relative_time now timestamp =
     (let e = now - timestamp in
      if us_per_day \<le> e then str_int (e div us_per_day) @ ''d ago''
      else if 3600 * us_per_second \<le> e then str_int (e div (3600 * us_per_second)) @ ''h ago''
      else if 60 * us_per_second \<le> e then str_int (e div (60 * us_per_second)) @ ''m ago''
      else ''just now'')"
proof -
  define e where "e = now - timestamp"
  have e0: "0 \<le> e" using assms by (simp add: e_def)
  have c: "0 < us_per_second" by (simp add: us_per_second_def)
  show ?thesis
  proof (cases "us_per_day \<le> e")
    case True
    then show ?thesis using e0 elapsed_days [OF e0]
      by (simp add: format_relative_time_def Let_def e_def [symmetric] td_days_def)
  next
    case False
    then have lt: "e < us_per_day" by simp
    have s: "td_seconds e = e div us_per_second" using elapsed_seconds [OF e0 lt] .
    have h: "(3600 \<le> e div us_per_second) = (3600 * us_per_second \<le> e)"
      using le_div_iff_int [OF c] .
    have m: "(60 \<le> e div us_per_second) = (60 * us_per_second \<le> e)"
      using le_div_iff_int [OF c] .
    have hd: "e div us_per_second div 3600 = e div (3600 * us_per_second)"
      using zdiv_zmult2_eq [of 3600 e us_per_second] by (simp add: mult.commute)
    have md: "e div us_per_second div 60 = e div (60 * us_per_second)"
      using zdiv_zmult2_eq [of 60 e us_per_second] by (simp add: mult.commute)
    show ?thesis using False elapsed_days [OF e0]
      by (simp add: format_relative_time_def Let_def e_def [symmetric] s h m hd md)
  qed
qed

theorem format_relative_time_spec_witness:
  "(0::int) \<le> 273600000000 \<and> format_relative_time 273600000000 0 = ''3d ago''
   \<and> (0::int) \<le> 7500000000 \<and> format_relative_time 7500000000 0 = ''2h ago''"
  using format_relative_time_spec [of 0 273600000000] format_relative_time_spec [of 0 7500000000]
  by (simp add: us_per_day_def us_per_second_def str_int_def str_nat_small digit_char_def)

section \<open>Properties of the profit sum, the trend and the user metrics\<close>

lemma sum_profit_append: "sum_profit (xs @ ys) = sum_profit xs + sum_profit ys"
  by (induction xs) (auto split: option.splits)

lemma sum_profit_sum_list:
  "sum_profit bs = sum_list (map (\<lambda>b. the (bet_profit b)) (filter (\<lambda>b. bet_profit b \<noteq> None) bs))"
  by (induction bs) (auto split: option.splits)

lemma period_bets_filter:
  "period_bets db uid s e =
     filter (\<lambda>b. bet_user_id b = uid \<and> s \<le> bet_created_at b \<and> bet_status b \<noteq> ''pending''
                  \<and> (case e of None \<Rightarrow> True | Some t \<Rightarrow> bet_created_at b < t)) (bets db)"
  by (auto simp: period_bets_def Let_def split: option.splits intro: filter_cong)

text \<open>
  C2. The profit sum of a period, and the total profit of the user metrics, count only
  settled bets that have a profit value: a bet without one is skipped, so inserting such a
  bet anywhere among the bets changes neither sum.
\<close>

theorem profit_sum_skips_missing_profit:
  assumes "bet_profit b = None"
  shows "calculate_period_profit (db\<lparr>bets := xs @ b # ys\<rparr>) uid s e
           = calculate_period_profit (db\<lparr>bets := xs @ ys\<rparr>) uid s e
       \<and> map_option totalProfit (get_user_metrics clutch now (db\<lparr>bets := xs @ b # ys\<rparr>) uid)
           = map_option totalProfit (get_user_metrics clutch now (db\<lparr>bets := xs @ ys\<rparr>) uid)
       \<and> calculate_period_profit db uid s e
           = (\<Sum>x\<leftarrow>filter (\<lambda>x. bet_profit x \<noteq> None) (period_bets db uid s e). the (bet_profit x))"
proof -
  have p: "calculate_period_profit (db\<lparr>bets := xs @ b # ys\<rparr>) uid s e
           = calculate_period_profit (db\<lparr>bets := xs @ ys\<rparr>) uid s e"
    unfolding calculate_period_profit_def period_bets_filter
    using assms by (simp add: sum_profit_append)
  have t: "map_option totalProfit (get_user_metrics clutch now (db\<lparr>bets := xs @ b # ys\<rparr>) uid)
           = map_option totalProfit (get_user_metrics clutch now (db\<lparr>bets := xs @ ys\<rparr>) uid)"
    using assms
    by (simp add: get_user_metrics_def Let_def sum_profit_append split: option.splits)
  have q: "calculate_period_profit db uid s e
           = (\<Sum>x\<leftarrow>filter (\<lambda>x. bet_profit x \<noteq> None) (period_bets db uid s e). the (bet_profit x))"
    by (simp add: calculate_period_profit_def sum_profit_sum_list)
  from p t q show ?thesis by simp
qed

theorem profit_sum_skips_missing_profit_witness:
  "bet_profit example_no_profit_bet = None
   \<and> calculate_period_profit
        (example_metrics_db\<lparr>bets := [example_win_bet] @ example_no_profit_bet
                                       # [example_loss_bet]\<rparr>) 1 0 None = 40
   \<and> calculate_period_profit
        (example_metrics_db\<lparr>bets := [example_win_bet] @ [example_loss_bet]\<rparr>)
        1 0 None = 40"
  using profit_sum_skips_missing_profit
    [where b = example_no_profit_bet and db = example_metrics_db
       and xs = "[example_win_bet]" and ys = "[example_loss_bet]"
       and uid = 1 and s = 0 and e = None]
  by (simp add: example_no_profit_bet_def example_win_bet_def example_loss_bet_def
        calculate_period_profit_def period_bets_def)

text \<open>
  C3. The trend of a metric \<open>f\<close> is the percentage change from \<open>f\<close> over the previous
  window to \<open>f\<close> over the current window. The current window starts \<open>current_days\<close> before
  now and has no end bound; the previous window starts \<open>previous_days\<close> before now and ends
  exactly where the current one starts. With a value of 100 over the last 30 days and of 50
  over the 30 days before them, the trend is 100.
\<close>

theorem trend_metric_spec:
  "calculate_trend_metric now uid f current_days previous_days
     = calculate_percentage_change
         (f uid (now - timedelta_of_days current_days) None)
         (f uid (now - timedelta_of_days previous_days) (Some (now - timedelta_of_days current_days)))
   \<and> period_bets db uid (now - timedelta_of_days current_days) None
     = filter (\<lambda>b. bet_user_id b = uid \<and> bet_status b \<noteq> ''pending''
                  \<and> now - timedelta_of_days current_days \<le> bet_created_at b) (bets db)
   \<and> period_bets db uid (now - timedelta_of_days previous_days)
         (Some (now - timedelta_of_days current_days))
     = filter (\<lambda>b. bet_user_id b = uid \<and> bet_status b \<noteq> ''pending''
                  \<and> now - timedelta_of_days previous_days \<le> bet_created_at b
                  \<and> bet_created_at b < now - timedelta_of_days current_days) (bets db)
   \<and> (f uid (now - timedelta_of_days 30) None = 100
        \<and> f uid (now - timedelta_of_days 60) (Some (now - timedelta_of_days 30)) = 50
      \<longrightarrow> calculate_trend_metric now uid f 30 60 = 100)"
  by (auto simp: calculate_trend_metric_def Let_def period_bets_filter
        calculate_percentage_change_def intro: filter_cong)

theorem trend_metric_spec_witness:
  "calculate_period_profit example_metrics_db 1 (example_now - timedelta_of_days 30) None = 100
   \<and> calculate_period_profit example_metrics_db 1 (example_now - timedelta_of_days 60)
        (Some (example_now - timedelta_of_days 30)) = 50
   \<and> calculate_trend_metric example_now 1 (calculate_period_profit example_metrics_db) 30 60
        = 100"
proof -
  have c: "calculate_period_profit example_metrics_db 1
             (example_now - timedelta_of_days 30) None = 100"
    by (simp add: calculate_period_profit_def period_bets_def example_metrics_db_def
          example_now_def timedelta_of_days_def us_per_day_def us_per_second_def)
  have p: "calculate_period_profit example_metrics_db 1 (example_now - timedelta_of_days 60)
             (Some (example_now - timedelta_of_days 30)) = 50"
    by (simp add: calculate_period_profit_def period_bets_def example_metrics_db_def
          example_now_def timedelta_of_days_def us_per_day_def us_per_second_def)
  show ?thesis
    using trend_metric_spec
      [of example_now 1 "calculate_period_profit example_metrics_db" 30 60 example_metrics_db]
      c p
    by simp
qed

lemma py_round_zero: "py_round 0 n = 0"
  by (simp add: py_round_def round_half_even_def)

lemma period_bets_no_activity:
  assumes "\<forall>b\<in>set (bets db). bet_user_id b \<noteq> uid"
  shows "period_bets db uid s e = []"
  using assms by (auto simp: period_bets_filter filter_empty_conv)

text \<open>
  C9. For an owner id without a user record the user metrics are the absent result
  \<open>None\<close>, a returned value. For an owner id with a user record they are a snapshot, never
  \<open>None\<close>: for a user without bets it is the snapshot whose rates, profit and trends are 0,
  so that the two outcomes differ.
\<close>

theorem user_metrics_unknown_owner:
  "(users db uid = None \<longrightarrow> get_user_metrics clutch now db uid = None)
   \<and> (users db uid \<noteq> None \<longrightarrow> get_user_metrics clutch now db uid \<noteq> None)
   \<and> (users db uid \<noteq> None \<and> (\<forall>b\<in>set (bets db). bet_user_id b \<noteq> uid) \<longrightarrow>
        get_user_metrics clutch now db uid
          = Some \<lparr>winRate = 0, winRateTrend = 0, totalProfit = 0, profitTrend = 0,
                  clutchPicks = clutch uid None None,
                  clutchPicksTrend =
                    py_round (calculate_percentage_change
                      (of_int (clutch uid (Some (now - timedelta_of_days 30)) None))
                      (of_int (clutch uid (Some (now - timedelta_of_days 60))
                                 (Some (now - timedelta_of_days 30))))) 1,
                  followers = get_followers_count db uid,
                  followersTrend = 0\<rparr>)"
proof -
  have z: "get_user_metrics clutch now db uid
          = Some \<lparr>winRate = 0, winRateTrend = 0, totalProfit = 0, profitTrend = 0,
                  clutchPicks = clutch uid None None,
                  clutchPicksTrend =
                    py_round (calculate_percentage_change
                      (of_int (clutch uid (Some (now - timedelta_of_days 30)) None))
                      (of_int (clutch uid (Some (now - timedelta_of_days 60))
                                 (Some (now - timedelta_of_days 30))))) 1,
                  followers = get_followers_count db uid,
                  followersTrend = 0\<rparr>"
    if u: "users db uid \<noteq> None" and n: "\<forall>b\<in>set (bets db). bet_user_id b \<noteq> uid"
  proof -
    have f: "filter (\<lambda>b. bet_user_id b = uid) (bets db) = []"
      using n by (auto simp: filter_empty_conv)
    have p: "\<And>s e. period_bets db uid s e = []"
      using period_bets_no_activity [OF n] .
    show ?thesis
      using u
      by (auto simp: get_user_metrics_def Let_def f p calculate_win_rate_def
            calculate_trend_metric_def calculate_period_win_rate_def
            calculate_period_profit_def calculate_percentage_change_def
            calculate_followers_trend_def py_round_zero)
  qed
  then show ?thesis
    by (auto simp: get_user_metrics_def Let_def split: option.splits)
qed

theorem user_metrics_unknown_owner_witness:
  "users example_metrics_db 2 = None
   \<and> get_user_metrics (\<lambda>u s e. 0) example_now example_metrics_db 2 = None
   \<and> users example_metrics_db 1 \<noteq> None
   \<and> get_user_metrics (\<lambda>u s e. 0) example_now example_metrics_db 1 \<noteq> None
   \<and> users (example_metrics_db\<lparr>bets := []\<rparr>) 1 \<noteq> None
   \<and> bets (example_metrics_db\<lparr>bets := []\<rparr>) = []
   \<and> get_user_metrics (\<lambda>u s e. 0) example_now (example_metrics_db\<lparr>bets := []\<rparr>) 1
       = Some \<lparr>winRate = 0, winRateTrend = 0, totalProfit = 0, profitTrend = 0,
               clutchPicks = 0, clutchPicksTrend = 0, followers = 4, followersTrend = 0\<rparr>"
  using user_metrics_unknown_owner [of example_metrics_db 2 "\<lambda>u s e. 0" example_now]
    user_metrics_unknown_owner [of example_metrics_db 1 "\<lambda>u s e. 0" example_now]
    user_metrics_unknown_owner [of "example_metrics_db\<lparr>bets := []\<rparr>" 1 "\<lambda>u s e. 0" example_now]
  by (simp add: example_metrics_db_def get_followers_count_def
        calculate_percentage_change_def py_round_zero)

section \<open>Properties of the performance history\<close>

lemma sum_filter_mset:
  fixes f :: "'a \<Rightarrow> real"
  shows "sum_list (map f (filter P xs)) = sum_mset (image_mset f (filter_mset P (mset xs)))"
proof -
  have "sum_mset (mset (map f (filter P xs))) = sum_list (map f (filter P xs))"
    by (rule sum_mset_sum_list)
  then show ?thesis by simp
qed

lemma sum_filter_sort_key:
  fixes f :: "'a \<Rightarrow> real"
  shows "sum_list (map f (filter P (sort_key g xs))) = sum_list (map f (filter P xs))"
  unfolding sum_filter_mset by simp

lemma sorted_hd_Min:
  assumes "s \<noteq> []" and "sorted (map g s)"
  shows "g (hd s) = Min (g ` set s)"
proof -
  obtain a t where s: "s = a # t" using assms(1) by (cases s) auto
  have "\<forall>x\<in>set t. g a \<le> g x" using assms(2) by (simp add: s)
  then show ?thesis
    by (intro sym [OF Min_eqI]) (auto simp: s)
qed

lemma sorted_last_Max:
  assumes "s \<noteq> []" and "sorted (map g s)"
  shows "g (last s) = Max (g ` set s)"
proof -
  have "\<forall>x\<in>set s. g x \<le> g (last s)"
  proof
    fix x assume "x \<in> set s"
    then obtain i where i: "i < length s" "s ! i = x" by (auto simp: in_set_conv_nth)
    have "map g s ! i \<le> map g s ! (length s - 1)"
      using assms(2) i(1) by (intro sorted_nth_mono) auto
    then show "g x \<le> g (last s)" using i assms(1) by (simp add: last_conv_nth)
  qed
  moreover have "last s \<in> set s" using assms(1) by simp
  ultimately show ?thesis
    by (intro sym [OF Max_eqI]) auto
qed

lemma sort_key_nonempty: "xs \<noteq> [] \<Longrightarrow> sort_key g xs \<noteq> []"
  by (metis length_sort length_0_conv)

lemma hd_sort_key_Min:
  assumes "xs \<noteq> []"
  shows "g (hd (sort_key g xs)) = Min (g ` set xs)"
  using sorted_hd_Min [OF sort_key_nonempty [OF assms], of g g] by simp

lemma last_sort_key_Max:
  assumes "xs \<noteq> []"
  shows "g (last (sort_key g xs)) = Max (g ` set xs)"
  using sorted_last_Max [OF sort_key_nonempty [OF assms], of g g] by simp

lemma sum_filter_split:
  fixes f :: "'a \<Rightarrow> real"
  assumes "\<And>x. x \<in> set xs \<Longrightarrow> \<not> (P x \<and> Q x)"
  shows "sum_list (map f (filter (\<lambda>x. P x \<or> Q x) xs))
         = sum_list (map f (filter P xs)) + sum_list (map f (filter Q xs))"
  using assms by (induction xs) auto

lemma foldl_add_sum_list:
  fixes a :: real
  shows "foldl (+) a xs = a + sum_list xs"
  by (induction xs arbitrary: a) (simp_all add: add.assoc)

lemma cumsum_from_closed:
  "cumsum_from (+) acc rs
     = map (\<lambda>j. (fst (rs ! j), acc + sum_list (map snd (take (Suc j) rs)))) [0..<length rs]"
proof (induction rs arbitrary: acc)
  case Nil
  then show ?case by simp
next
  case (Cons r rs)
  obtain d p where r: "r = (d, p)" by (cases r)
  have "[0..<length (r # rs)] = 0 # map Suc [0..<length rs]"
    by (simp add: upt_conv_Cons map_Suc_upt del: upt_Suc)
  then show ?case using Cons.IH [of "acc + p"]
    by (simp add: r add.assoc del: upt_Suc)
qed

lemma cumsum_exact: "cumsum (+) rs = cumsum_from (+) 0 rs"
  by (cases rs) auto

lemma cumsum_closed:
  "cumsum (+) rs
     = map (\<lambda>j. (fst (rs ! j), sum_list (map snd (take (Suc j) rs)))) [0..<length rs]"
  unfolding cumsum_exact cumsum_from_closed by simp

lemma map_fst_cumsum_from: "map fst (cumsum_from add acc rs) = map fst rs"
  by (induction rs arbitrary: acc) auto

lemma map_fst_cumsum: "map fst (cumsum add rs) = map fst rs"
  by (cases rs) (auto simp: map_fst_cumsum_from)

lemma normalize_le: "normalize t \<le> t"
  by (simp add: normalize_def us_per_day_def us_per_second_def)

lemma sampling_freq_pos: "0 < sampling_freq days"
  by (simp add: sampling_freq_def timedelta_of_days_def us_per_day_def us_per_second_def)

lemma resample_sum_sorted:
  assumes "rows \<noteq> []"
  shows "resample_sum add freq rows =
     map (\<lambda>k. (normalize (Min (fst ` set rows)) + int k * freq,
                foldl add 0 (map snd
                  (filter (\<lambda>x. normalize (Min (fst ` set rows)) + int k * freq \<le> fst x
                               \<and> fst x < normalize (Min (fst ` set rows)) + int k * freq + freq)
                     (sort_key fst rows)))))
       [0..<nat ((Max (fst ` set rows) - normalize (Min (fst ` set rows))) div freq) + 1]"
proof -
  obtain r rs where srt: "sort_key fst rows = r # rs"
    using sort_key_nonempty [OF assms, of fst] by (cases "sort_key fst rows") auto
  have first: "fst r = Min (fst ` set rows)"
    using hd_sort_key_Min [OF assms, of fst] by (simp add: srt)
  have lst: "fst (last (r # rs)) = Max (fst ` set rows)"
    using last_sort_key_Max [OF assms, of fst] by (simp only: srt)
  show ?thesis
    unfolding resample_sum_def srt list.case Let_def first lst ..
qed

lemma resample_sum_closed:
  assumes "rows \<noteq> []"
  shows "resample_sum (+) freq rows =
     map (\<lambda>k. (normalize (Min (fst ` set rows)) + int k * freq,
                \<Sum>x\<leftarrow>filter (\<lambda>x. normalize (Min (fst ` set rows)) + int k * freq \<le> fst x
                               \<and> fst x < normalize (Min (fst ` set rows)) + int k * freq + freq) rows.
                   snd x))
       [0..<nat ((Max (fst ` set rows) - normalize (Min (fst ` set rows))) div freq) + 1]"
  unfolding resample_sum_sorted [OF assms] foldl_add_sum_list sum_filter_sort_key by simp

lemma bucket_prefix_sum:
  fixes rows :: "(datetime \<times> real) list"
  assumes low: "\<And>x. x \<in> set rows \<Longrightarrow> origin \<le> fst x" and pos: "0 < freq"
  shows "(\<Sum>j\<leftarrow>[0..<Suc k]. \<Sum>x\<leftarrow>filter (\<lambda>x. origin + int j * freq \<le> fst x
                                          \<and> fst x < origin + int j * freq + freq) rows. snd x)
         = (\<Sum>x\<leftarrow>filter (\<lambda>x. fst x < origin + (int k + 1) * freq) rows. snd x)"
proof (induction k)
  case 0
  have "filter (\<lambda>x. origin \<le> fst x \<and> fst x < origin + freq) rows
        = filter (\<lambda>x. fst x < origin + freq) rows"
    using low by (intro filter_cong) auto
  then show ?case by simp
next
  case (Suc k)
  let ?P = "\<lambda>x::datetime \<times> real. fst x < origin + (int k + 1) * freq"
  let ?Q = "\<lambda>x::datetime \<times> real. origin + int (Suc k) * freq \<le> fst x
                \<and> fst x < origin + int (Suc k) * freq + freq"
  have disj: "\<And>x. x \<in> set rows \<Longrightarrow> \<not> (?P x \<and> ?Q x)" by (auto simp: algebra_simps)
  have "filter (\<lambda>x. fst x < origin + (int (Suc k) + 1) * freq) rows
        = filter (\<lambda>x. ?P x \<or> ?Q x) rows"
    using pos by (intro filter_cong) (auto simp: algebra_simps)
  then have "(\<Sum>x\<leftarrow>filter (\<lambda>x. fst x < origin + (int (Suc k) + 1) * freq) rows. snd x)
        = (\<Sum>x\<leftarrow>filter ?P rows. snd x) + (\<Sum>x\<leftarrow>filter ?Q rows. snd x)"
    using sum_filter_split [of rows ?P ?Q snd, OF disj] by simp
  moreover have "(\<Sum>j\<leftarrow>[0..<Suc (Suc k)]. \<Sum>x\<leftarrow>filter (\<lambda>x. origin + int j * freq \<le> fst x
                                          \<and> fst x < origin + int j * freq + freq) rows. snd x)
        = (\<Sum>j\<leftarrow>[0..<Suc k]. \<Sum>x\<leftarrow>filter (\<lambda>x. origin + int j * freq \<le> fst x
                                          \<and> fst x < origin + int j * freq + freq) rows. snd x)
          + (\<Sum>x\<leftarrow>filter ?Q rows. snd x)"
    by simp
  ultimately show ?case using Suc.IH by simp
qed

lemma resample_history_closed:
  assumes "rows \<noteq> []"
  shows "resample_history (+) days rows =
     map (\<lambda>k. \<lparr>pp_date = strftime_b_d (normalize (Min (fst ` set rows)) + int k * sampling_freq days),
                pp_profit = py_round
                  (\<Sum>x\<leftarrow>filter (\<lambda>x. fst x < normalize (Min (fst ` set rows))
                                           + (int k + 1) * sampling_freq days) rows. snd x) 2\<rparr>)
       [0..<nat ((Max (fst ` set rows) - normalize (Min (fst ` set rows))) div sampling_freq days) + 1]"
proof -
  define origin where "origin = normalize (Min (fst ` set rows))"
  define w where "w = sampling_freq days"
  define n where "n = nat ((Max (fst ` set rows) - origin) div w) + 1"
  define F where "F = (\<lambda>k. (origin + int k * w,
       \<Sum>x\<leftarrow>filter (\<lambda>x. origin + int k * w \<le> fst x \<and> fst x < origin + int k * w + w) rows. snd x))"
  have rs: "resample_sum (+) w rows = map F [0..<n]"
    using resample_sum_closed [OF assms, of w] by (simp add: origin_def n_def F_def)
  have low: "\<And>x. x \<in> set rows \<Longrightarrow> origin \<le> fst x"
  proof -
    fix x assume "x \<in> set rows"
    then have "Min (fst ` set rows) \<le> fst x" by simp
    then show "origin \<le> fst x"
      using normalize_le [of "Min (fst ` set rows)"] by (simp add: origin_def)
  qed
  have pos: "0 < w" by (simp add: w_def sampling_freq_pos)
  have pre: "\<And>k. k < n \<Longrightarrow> sum_list (map snd (take (Suc k) (map F [0..<n])))
               = (\<Sum>x\<leftarrow>filter (\<lambda>x. fst x < origin + (int k + 1) * w) rows. snd x)"
  proof -
    fix k assume k: "k < n"
    have "take (Suc k) (map F [0..<n]) = map F [0..<Suc k]"
      using k by (simp add: take_map del: upt_Suc)
    then have "sum_list (map snd (take (Suc k) (map F [0..<n])))
               = (\<Sum>j\<leftarrow>[0..<Suc k]. snd (F j))"
      by (simp add: comp_def del: upt_Suc)
    also have "\<dots> = (\<Sum>x\<leftarrow>filter (\<lambda>x. fst x < origin + (int k + 1) * w) rows. snd x)"
      using bucket_prefix_sum [of rows origin w k, OF low pos] by (simp add: F_def del: upt_Suc)
    finally show "sum_list (map snd (take (Suc k) (map F [0..<n])))
               = (\<Sum>x\<leftarrow>filter (\<lambda>x. fst x < origin + (int k + 1) * w) rows. snd x)" .
  qed
  have cs: "cumsum (+) (map F [0..<n])
      = map (\<lambda>k. (origin + int k * w,
                   \<Sum>x\<leftarrow>filter (\<lambda>x. fst x < origin + (int k + 1) * w) rows. snd x)) [0..<n]"
    unfolding cumsum_closed [of "map F [0..<n]"]
    using pre by (auto simp: F_def simp del: upt_Suc)
  have "resample_history (+) days rows
      = map (\<lambda>row. \<lparr>pp_date = strftime_b_d (fst row), pp_profit = py_round (snd row) 2\<rparr>)
          (cumsum (+) (map F [0..<n]))"
    using assms by (simp add: resample_history_def Let_def w_def [symmetric] rs)
  also have "\<dots> = map (\<lambda>k. \<lparr>pp_date = strftime_b_d (origin + int k * w),
                pp_profit = py_round
                  (\<Sum>x\<leftarrow>filter (\<lambda>x. fst x < origin + (int k + 1) * w) rows. snd x) 2\<rparr>) [0..<n]"
    unfolding cs by (simp add: comp_def)
  finally show ?thesis
    unfolding n_def origin_def w_def .
qed

lemma resample_history_dates:
  assumes "rows \<noteq> []"
  shows "map pp_date (resample_history add days rows) =
     map (\<lambda>k. strftime_b_d (normalize (Min (fst ` set rows)) + int k * sampling_freq days))
       [0..<nat ((Max (fst ` set rows) - normalize (Min (fst ` set rows))) div sampling_freq days) + 1]"
proof -
  have "map pp_date (resample_history add days rows)
      = map strftime_b_d (map fst (cumsum add (resample_sum add (sampling_freq days) rows)))"
    using assms by (simp add: resample_history_def Let_def comp_def)
  also have "\<dots> = map strftime_b_d (map fst (resample_sum add (sampling_freq days) rows))"
    by (simp only: map_fst_cumsum)
  finally show ?thesis
    unfolding resample_sum_sorted [OF assms] by (simp add: comp_def)
qed

lemma resample_sum_empty_bucket:
  assumes "rows \<noteq> []"
    and "k < nat ((Max (fst ` set rows) - normalize (Min (fst ` set rows))) div freq) + 1"
    and "\<forall>x\<in>set rows. \<not> (normalize (Min (fst ` set rows)) + int k * freq \<le> fst x
            \<and> fst x < normalize (Min (fst ` set rows)) + int k * freq + freq)"
  shows "resample_sum add freq rows ! k = (normalize (Min (fst ` set rows)) + int k * freq, 0)"
proof -
  have "filter (\<lambda>x. normalize (Min (fst ` set rows)) + int k * freq \<le> fst x
            \<and> fst x < normalize (Min (fst ` set rows)) + int k * freq + freq)
          (sort_key fst rows) = []"
    using assms(3) by (auto simp: filter_empty_conv)
  then show ?thesis
    unfolding resample_sum_sorted [OF assms(1)] using assms(2) by (simp del: upt_Suc)
qed

lemma row_in_bucket:
  fixes t origin w :: int
  assumes "origin \<le> t" "t \<le> mx" "0 < w"
  shows "nat ((t - origin) div w) < nat ((mx - origin) div w) + 1
     \<and> origin + int (nat ((t - origin) div w)) * w \<le> t
     \<and> t < origin + int (nat ((t - origin) div w)) * w + w"
proof -
  let ?q = "(t - origin) div w"
  have q0: "0 \<le> ?q" using assms by (simp add: pos_imp_zdiv_nonneg_iff)
  have mono: "?q \<le> (mx - origin) div w" using assms by (intro zdiv_mono1) auto
  have eq: "?q * w + (t - origin) mod w = t - origin" by (rule div_mult_mod_eq)
  have m0: "0 \<le> (t - origin) mod w" and m1: "(t - origin) mod w < w"
    using assms(3) by simp_all
  have nq: "int (nat ?q) = ?q" using q0 by simp
  have a: "nat ?q < nat ((mx - origin) div w) + 1" using q0 mono by linarith
  have b: "origin + int (nat ?q) * w \<le> t" unfolding nq using eq m0 by linarith
  have c: "t < origin + int (nat ?q) * w + w" unfolding nq using eq m1 by linarith
  from a b c show ?thesis by blast
qed

text \<open>
  C4. For a non-empty input, the bucket width is 1 day when \<open>days \<le> 30\<close>, 7 days when
  \<open>30 < days \<le> 90\<close> and 15 days otherwise. The buckets start at midnight of the earliest
  timestamp and follow one another without gap up to the bucket of the latest timestamp;
  each of them appears in the output, in chronological order, with the sum of its rows, which
  is 0 for a bucket without rows, so that the running total of the output stays unchanged
  there. Every input row lies in one of the buckets. The sums and running totals are given
  for exact addition; the buckets, their order and the sum 0 of a bucket without rows hold
  for every addition \<open>add\<close> of the profit numbers.
\<close>

theorem performance_history_buckets:
  assumes "rows \<noteq> []"
  shows
    "(let w = (if days \<le> 30 then 1 * us_per_day
               else if days \<le> 90 then 7 * us_per_day else 15 * us_per_day);
          origin = normalize (Min (fst ` set rows));
          n = nat ((Max (fst ` set rows) - origin) div w) + 1
      in sampling_freq days = w
       \<and> resample_sum (+) w rows
           = map (\<lambda>k. (origin + int k * w,
                        \<Sum>x\<leftarrow>filter (\<lambda>x. origin + int k * w \<le> fst x
                                          \<and> fst x < origin + int k * w + w) rows. snd x)) [0..<n]
       \<and> resample_history (+) days rows
           = map (\<lambda>k. \<lparr>pp_date = strftime_b_d (origin + int k * w),
                        pp_profit = py_round
                          (\<Sum>x\<leftarrow>filter (\<lambda>x. fst x < origin + (int k + 1) * w) rows. snd x) 2\<rparr>)
               [0..<n]
       \<and> (\<forall>x\<in>set rows. \<exists>k<n. origin + int k * w \<le> fst x \<and> fst x < origin + int k * w + w)
       \<and> map fst (resample_sum add w rows) = map (\<lambda>k. origin + int k * w) [0..<n]
       \<and> map pp_date (resample_history add days rows)
           = map (\<lambda>k. strftime_b_d (origin + int k * w)) [0..<n]
       \<and> (\<forall>k<n. (\<forall>x\<in>set rows. \<not> (origin + int k * w \<le> fst x
                                       \<and> fst x < origin + int k * w + w))
              \<longrightarrow> resample_sum add w rows ! k = (origin + int k * w, 0)))"
proof -
  define w where "w = (if days \<le> 30 then 1 * us_per_day
               else if days \<le> 90 then 7 * us_per_day else 15 * us_per_day)"
  define origin where "origin = normalize (Min (fst ` set rows))"
  define n where "n = nat ((Max (fst ` set rows) - origin) div w) + 1"
  have f: "sampling_freq days = w"
    by (simp add: sampling_freq_def w_def timedelta_of_days_def)
  have pos: "0 < w" using sampling_freq_pos [of days] by (simp add: f)
  have r: "resample_sum (+) w rows
           = map (\<lambda>k. (origin + int k * w,
                        \<Sum>x\<leftarrow>filter (\<lambda>x. origin + int k * w \<le> fst x
                                          \<and> fst x < origin + int k * w + w) rows. snd x)) [0..<n]"
    unfolding origin_def n_def by (rule resample_sum_closed [OF assms])
  have h: "resample_history (+) days rows
           = map (\<lambda>k. \<lparr>pp_date = strftime_b_d (origin + int k * w),
                        pp_profit = py_round
                          (\<Sum>x\<leftarrow>filter (\<lambda>x. fst x < origin + (int k + 1) * w) rows. snd x) 2\<rparr>)
               [0..<n]"
    unfolding origin_def n_def f [symmetric] by (rule resample_history_closed [OF assms])
  have c: "\<forall>x\<in>set rows. \<exists>k<n. origin + int k * w \<le> fst x \<and> fst x < origin + int k * w + w"
  proof
    fix x assume x: "x \<in> set rows"
    have "Min (fst ` set rows) \<le> fst x" using x by simp
    then have lo: "origin \<le> fst x"
      using normalize_le [of "Min (fst ` set rows)"] unfolding origin_def by linarith
    have hi: "fst x \<le> Max (fst ` set rows)" using x by simp
    show "\<exists>k<n. origin + int k * w \<le> fst x \<and> fst x < origin + int k * w + w"
      using row_in_bucket [OF lo hi pos] unfolding n_def by blast
  qed
  have g: "map fst (resample_sum add w rows) = map (\<lambda>k. origin + int k * w) [0..<n]"
    unfolding origin_def n_def resample_sum_sorted [OF assms] by (simp add: comp_def)
  have d: "map pp_date (resample_history add days rows)
           = map (\<lambda>k. strftime_b_d (origin + int k * w)) [0..<n]"
    unfolding origin_def n_def f [symmetric] by (rule resample_history_dates [OF assms])
  have z: "\<forall>k<n. (\<forall>x\<in>set rows. \<not> (origin + int k * w \<le> fst x
                                       \<and> fst x < origin + int k * w + w))
              \<longrightarrow> resample_sum add w rows ! k = (origin + int k * w, 0)"
    unfolding origin_def n_def using resample_sum_empty_bucket [OF assms] by blast
  from f r h c g d z show ?thesis
    unfolding Let_def w_def [symmetric] origin_def [symmetric] n_def [symmetric] by blast
qed

theorem performance_history_buckets_witness:
  "example_rows \<noteq> []
   \<and> resample_history (+) 30 example_rows
       = [\<lparr>pp_date = ''Apr 07'', pp_profit = 10\<rparr>,
          \<lparr>pp_date = ''Apr 08'', pp_profit = 10\<rparr>,
          \<lparr>pp_date = ''Apr 09'', pp_profit = 15\<rparr>]
   \<and> map fst (resample_sum double_add us_per_day example_rows)
       = [8294400000000, 8380800000000, 8467200000000]
   \<and> resample_sum double_add us_per_day example_rows ! 1 = (8380800000000, 0)"
proof -
  have ne: "example_rows \<noteq> []" by (simp add: example_rows_def)
  have mn: "Min (fst ` set example_rows) = 8330400000000"
    by (simp add: example_rows_def)
  have mx: "Max (fst ` set example_rows) = 8546400000000"
    by (simp add: example_rows_def)
  have u: "[0..<3] = [0, 1, 2]" by (simp add: upt_rec)
  have r: "py_round 10 2 = 10" "py_round 15 2 = 15"
    by (simp_all add: py_round_def round_half_even_def)
  have o: "normalize (Min (fst ` set example_rows)) = 8294400000000"
    by (simp add: mn normalize_def us_per_day_def us_per_second_def)
  have n: "nat ((Max (fst ` set example_rows) - 8294400000000) div us_per_day) = 2"
    by (simp add: mx us_per_day_def us_per_second_def)
  have l0: "strftime_b_d 8294400000000 = ''Apr 07''"
    by code_simp
  have l1: "strftime_b_d 8380800000000 = ''Apr 08''"
    by code_simp
  have l2: "strftime_b_d 8467200000000 = ''Apr 09''"
    by code_simp
  note t = performance_history_buckets [OF ne, where days = 30 and add = double_add]
  have h: "resample_history (+) 30 example_rows
      = map (\<lambda>k. \<lparr>pp_date = strftime_b_d (8294400000000 + int k * us_per_day),
                   pp_profit = py_round
                     (\<Sum>x\<leftarrow>filter (\<lambda>x. fst x < 8294400000000 + (int k + 1) * us_per_day)
                                example_rows. snd x) 2\<rparr>) [0, 1, 2]"
    using t unfolding Let_def o by (simp add: n u del: upt_Suc)
  have g: "map fst (resample_sum double_add us_per_day example_rows)
      = map (\<lambda>k. 8294400000000 + int k * us_per_day) [0, 1, 2]"
    using t unfolding Let_def o by (simp add: n u del: upt_Suc)
  have z: "resample_sum double_add us_per_day example_rows ! 1 = (8380800000000, 0)"
    by code_simp
  show ?thesis
    unfolding h g using ne z
    by (simp add: us_per_day_def us_per_second_def l0 l1 l2 r example_rows_def)
qed






section \<open>Properties of the recent activity\<close>

lemma mset_sort_reverse: "mset (sort_reverse f xs) = mset xs"
  by (simp add: sort_reverse_def)

lemma set_sort_reverse: "set (sort_reverse f xs) = set xs"
  by (simp add: sort_reverse_def)

lemma sorted_sort_reverse: "sorted_wrt (\<lambda>a b. f b \<le> f a) (sort_reverse f xs)"
proof -
  have "sorted (map f (sort_key f (rev xs)))" by (rule sorted_sort_key)
  then have "sorted_wrt (\<lambda>a b. f a \<le> f b) (sort_key f (rev xs))"
    by (simp add: sorted_map)
  then show ?thesis
    by (simp add: sort_reverse_def sorted_wrt_rev)
qed

lemma bet_activity_keys:
  "map_of (bet_activity fmt now b) ''date'' = Some (DateV (bet_created_at b))
   \<and> map_of (bet_activity fmt now b) ''time''
       = Some (StrV (format_relative_time now (bet_created_at b)))
   \<and> activity_date (bet_activity fmt now b) = bet_created_at b"
  by (simp add: bet_activity_def Let_def activity_date_def)

lemma subscription_activity_keys:
  "map_of (subscription_activity now s) ''date'' = Some (DateV (sub_created_at s))
   \<and> map_of (subscription_activity now s) ''time''
       = Some (StrV (format_relative_time now (sub_created_at s)))
   \<and> activity_date (subscription_activity now s) = sub_created_at s"
  by (simp add: subscription_activity_def activity_date_def)

lemma collected_keys:
  assumes "a \<in> set (collect_activities fmt now db uid limit)"
  shows "map_of a ''date'' = Some (DateV (activity_date a))
       \<and> map_of a ''time'' = Some (StrV (format_relative_time now (activity_date a)))"
  using assms bet_activity_keys subscription_activity_keys
  by (auto simp: collect_activities_def)

lemma map_of_del_key:
  "map_of (del_key k a) k' = (if k' = k then None else map_of a k')"
  by (induction a) (auto simp: del_key_def)

text \<open>
  C6. The recent activity is the list of the owner's bet and subscription events, sorted by
  descending event timestamp, cut to at most \<open>limit\<close> items, each item without its
  \<open>date\<close> key and with the relative-time label of its event. For a bet won at 10:00 and a
  purchase at 09:00 with limit 1, the output holds the win event only.
\<close>

theorem recent_activity_spec:
  "(let acts = collect_activities fmt now db uid limit;
        sorted_acts = sort_reverse activity_date acts;
        result = get_recent_activity fmt now db uid limit
    in acts = map (bet_activity fmt now) (recent_bets db uid limit)
               @ map (subscription_activity now) (recent_subscriptions db uid)
     \<and> mset sorted_acts = mset acts
     \<and> sorted_wrt (\<lambda>a b. activity_date b \<le> activity_date a) sorted_acts
     \<and> (\<forall>a\<in>set acts. map_of a ''date'' = Some (DateV (activity_date a))
            \<and> map_of a ''time'' = Some (StrV (format_relative_time now (activity_date a))))
     \<and> result = map (del_key ''date'') (take limit sorted_acts)
     \<and> length result \<le> limit
     \<and> (\<forall>item\<in>set result. map_of item ''date'' = None
            \<and> (\<exists>a\<in>set acts. item = del_key ''date'' a
                  \<and> map_of item ''time''
                      = Some (StrV (format_relative_time now (activity_date a))))))"
proof -
  define acts where "acts = collect_activities fmt now db uid limit"
  define sorted_acts where "sorted_acts = sort_reverse activity_date acts"
  define result where "result = get_recent_activity fmt now db uid limit"
  have r: "result = map (del_key ''date'') (take limit sorted_acts)"
    by (simp add: result_def get_recent_activity_def Let_def sorted_acts_def acts_def take_map)
  have k: "\<forall>a\<in>set acts. map_of a ''date'' = Some (DateV (activity_date a))
            \<and> map_of a ''time'' = Some (StrV (format_relative_time now (activity_date a)))"
    unfolding acts_def using collected_keys by blast
  have items: "\<forall>item\<in>set result. map_of item ''date'' = None
            \<and> (\<exists>a\<in>set acts. item = del_key ''date'' a
                  \<and> map_of item ''time''
                      = Some (StrV (format_relative_time now (activity_date a))))"
  proof
    fix item assume "item \<in> set result"
    then obtain a where a: "a \<in> set (take limit sorted_acts)" "item = del_key ''date'' a"
      unfolding r by auto
    from a(1) have "a \<in> set sorted_acts" by (rule in_set_takeD)
    then have m: "a \<in> set acts" by (simp add: sorted_acts_def set_sort_reverse)
    show "map_of item ''date'' = None
            \<and> (\<exists>a\<in>set acts. item = del_key ''date'' a
                  \<and> map_of item ''time''
                      = Some (StrV (format_relative_time now (activity_date a))))"
      using m a(2) k by (auto simp: map_of_del_key)
  qed
  have "acts = map (bet_activity fmt now) (recent_bets db uid limit)
               @ map (subscription_activity now) (recent_subscriptions db uid)"
    by (simp add: acts_def collect_activities_def)
  moreover have "mset sorted_acts = mset acts"
    by (simp add: sorted_acts_def mset_sort_reverse)
  moreover have "sorted_wrt (\<lambda>a b. activity_date b \<le> activity_date a) sorted_acts"
    unfolding sorted_acts_def by (rule sorted_sort_reverse)
  moreover have "length result \<le> limit" by (simp add: r)
  ultimately show ?thesis
    using k r items
    unfolding Let_def acts_def [symmetric] sorted_acts_def [symmetric] result_def [symmetric]
    by blast
qed

lemma str_nat_two_digits:
  "10 \<le> n \<Longrightarrow> n < 100 \<Longrightarrow> str_nat n = [digit_char (n div 10), digit_char (n mod 10)]"
  by (subst str_nat.simps) (simp add: str_nat.simps)

theorem recent_activity_spec_witness:
  "get_recent_activity example_fmt example_now example_feed_db 1 1
     = [[(''type'', StrV ''win''),
         (''description'', StrV ''Won $20 on Final ($50)''),
         (''time'', StrV ''2h ago'')]]
   \<and> length (get_recent_activity example_fmt example_now example_feed_db 1 1) \<le> 1"
  using recent_activity_spec [of example_fmt example_now example_feed_db 1 1]
  by (simp add: Let_def get_recent_activity_def collect_activities_def recent_bets_def
        recent_subscriptions_def sort_reverse_def example_feed_db_def example_now_def
        example_fmt_def bet_activity_def subscription_activity_def activity_date_def
        del_key_def format_relative_time_def td_days_def td_seconds_def us_per_day_def
        us_per_second_def str_int_def str_nat_small str_nat_two_digits digit_char_def)

section \<open>Properties of the purchase of a pick\<close>

lemma purchase_pick_not_found:
  assumes "\<not> raises GetUser" "\<not> raises GetPick"
    and "buyers (working s) uid = None \<or> picks (working s) pid = None"
  shows "purchase_pick raises s uid pid
         = (\<lparr>success = False, message = ''User or pick not found'', pick_dict = None\<rparr>, s)"
  using assms
  by (auto simp: purchase_pick_def purchase_pick_body_def split: option.splits)

lemma purchase_pick_body_raise_before_commit:
  assumes "purchase_pick_body raises s uid pid = (Inl e, s')" and "e \<noteq> ToDict"
  shows "committed s' = committed s"
  using assms
  by (auto simp: purchase_pick_body_def Let_def commit_def split: if_splits option.splits)

lemma purchase_pick_rolls_back:
  assumes "purchase_pick_body raises s uid pid = (Inl e, s')" and "e \<noteq> ToDict"
  shows "purchase_pick raises s uid pid
         = (\<lparr>success = False, message = ''Error processing purchase'', pick_dict = None\<rparr>,
            s\<lparr>working := committed s\<rparr>)"
proof -
  have c: "committed s' = committed s"
    using purchase_pick_body_raise_before_commit [OF assms] .
  have "s' = s\<lparr>working := working s'\<rparr>"
    using assms
    by (auto simp: purchase_pick_body_def Let_def commit_def split: if_splits option.splits)
  then have "rollback s' = s\<lparr>working := committed s\<rparr>"
    using c by (metis rollback_def session.surjective session.update_convs(2) session.select_convs(1))
  then show ?thesis using assms(1) by (simp add: purchase_pick_def)
qed

text \<open>
  C10. A purchase in which the user and the pick exist, every step up to the commit succeeds
  and \<^verbatim>\<open>pick.to_dict()\<close> raises: the caller gets the result "Error processing purchase",
  and the committed store holds the purchase (the sales count is one higher, the pick is among
  the user's purchased picks), so the store is not unchanged.
\<close>

theorem purchase_pick_error_after_commit:
  "fst (purchase_pick (\<lambda>st. st = ToDict) example_session 1 7)
     = \<lparr>success = False, message = ''Error processing purchase'', pick_dict = None\<rparr>
   \<and> committed (snd (purchase_pick (\<lambda>st. st = ToDict) example_session 1 7))
       \<noteq> committed example_session
   \<and> picks (committed (snd (purchase_pick (\<lambda>st. st = ToDict) example_session 1 7))) 7
       = Some \<lparr>pick_sales = 4, pick_required_tier = 0\<rparr>
   \<and> buyers (committed (snd (purchase_pick (\<lambda>st. st = ToDict) example_session 1 7))) 1
       = Some \<lparr>purchased_picks = [7]\<rparr>"
proof -
  have e: "purchase_pick (\<lambda>st. st = ToDict) example_session 1 7
     = (\<lparr>success = False, message = ''Error processing purchase'', pick_dict = None\<rparr>,
        \<lparr>committed = \<lparr>buyers = [1 \<mapsto> \<lparr>purchased_picks = [7]\<rparr>],
                       picks = [7 \<mapsto> \<lparr>pick_sales = 4, pick_required_tier = 0\<rparr>],
                       tier_subscriptions = []\<rparr>,
         working = \<lparr>buyers = [1 \<mapsto> \<lparr>purchased_picks = [7]\<rparr>],
                     picks = [7 \<mapsto> \<lparr>pick_sales = 4, pick_required_tier = 0\<rparr>],
                     tier_subscriptions = []\<rparr>\<rparr>)"
    by (simp add: purchase_pick_def purchase_pick_body_def example_session_def Let_def
          commit_def rollback_def)
  have d: "[7 \<mapsto> \<lparr>pick_sales = 4, pick_required_tier = 0\<rparr>]
           \<noteq> [(7::int) \<mapsto> \<lparr>pick_sales = 3, pick_required_tier = 0\<rparr>]"
  proof
    assume "[7 \<mapsto> \<lparr>pick_sales = 4, pick_required_tier = 0\<rparr>]
           = [(7::int) \<mapsto> \<lparr>pick_sales = 3, pick_required_tier = 0\<rparr>]"
    then have "[7 \<mapsto> \<lparr>pick_sales = 4, pick_required_tier = 0\<rparr>] (7::int)
           = [(7::int) \<mapsto> \<lparr>pick_sales = 3, pick_required_tier = 0\<rparr>] 7" by (rule fun_cong)
    then show False by simp
  qed
  show ?thesis unfolding e using d by (simp add: example_session_def)
qed

end
